theory Spec2Isabelle
  imports Main "HOL-Library.Log_Nat"
begin

section \<open>Executors, fields and views\<close>

text \<open>
  Modelled from the spec: the Executor type is declared in a header that is not among the
  sources. The spec names three backends (single-threaded host, multi-threaded host,
  device); the capability token is a value with no further structure.
\<close>

datatype Executor = SerialExecutor | CPUExecutor | GPUExecutor

text \<open>
  Modelled from the spec: the class \<^verbatim>\<open>Field<ValueType>\<close> (fields/field.hpp) is not among the
  sources. A field owns a contiguous buffer of exactly \<open>size\<close> elements and remembers its
  executor. The element type is a type parameter, as in the template; the arithmetic the
  kernels use on it is whatever \<open>+\<close>, \<open>-\<close> and \<open>*\<close> mean at that type.
\<close>

record 'a Field =
  fieldExec :: Executor
  fieldData :: "'a list"

text \<open>
  Modelled from the spec: the members of \<^verbatim>\<open>Field\<close> that the operations below use. The
  constructor takes the executor, the size and a fill value; \<^verbatim>\<open>size()\<close> is the number of
  elements; \<^verbatim>\<open>span()\<close> is a view of the whole buffer; \<^verbatim>\<open>copyToHost()\<close> gives a host-resident
  field with the same contents.
\<close>

definition Field_ctor :: "Executor \<Rightarrow> nat \<Rightarrow> 'a \<Rightarrow> 'a Field" where
  "Field_ctor ex n v = \<lparr>fieldExec = ex, fieldData = replicate n v\<rparr>"

definition size_Field :: "'a Field \<Rightarrow> nat" where
  "size_Field a = length (fieldData a)"

definition span :: "'a Field \<Rightarrow> 'a list" where
  "span a = fieldData a"

definition copyToHost :: "'a Field \<Rightarrow> 'a Field" where
  "copyToHost a = a\<lparr>fieldExec := SerialExecutor\<rparr>"

text \<open>
  The two ways an operation on fields can fail. \<open>LengthMismatch\<close> is the exception of
  \<^verbatim>\<open>NeoFOAM_ASSERT_EQUAL_LENGTH\<close>. \<open>OutOfBounds\<close> stands for an access through a view at an
  index outside it: the spec calls the view bounds-checked, and in C++ the access is
  undefined, so the model stops there and no result below depends on what follows.
\<close>

datatype error = LengthMismatch | OutOfBounds

text \<open>
  A mutating operation returns the exception that left it, if any, together with the
  state of the object it was mutating at that moment.
\<close>

type_synonym 's result = "error option \<times> 's"

text \<open>
  Modelled from the spec: reading and writing one element through a view, which checks the
  index against the extent of the view.
\<close>

definition span_read :: "'a list \<Rightarrow> nat \<Rightarrow> error + 'a" where
  "span_read d i = (if i < length d then Inr (d ! i) else Inl OutOfBounds)"

definition span_write :: "'a list \<Rightarrow> nat \<Rightarrow> 'a \<Rightarrow> 'a list result" where
  "span_write d i v = (if i < length d then (None, d[i := v]) else (Some OutOfBounds, d))"

section \<open>Parallel dispatch\<close>

text \<open>
  Modelled from the spec: \<^verbatim>\<open>parallelFor\<close> (core/parallelAlgorithms.hpp) is not among the
  sources. It applies the body to every index of \<open>[start, end)\<close> exactly once and returns when
  all applications are complete. The model runs the indices in increasing order, which is
  what the single-threaded host executor does; the kernels of this file touch index \<open>i\<close>
  only, so any other order gives the same buffer. \<open>forEach\<close> is the loop itself, stopping at
  the first failing application.
\<close>

fun forEach :: "(nat \<Rightarrow> 's \<Rightarrow> 's result) \<Rightarrow> nat list \<Rightarrow> 's \<Rightarrow> 's result" where
  "forEach body [] s = (None, s)"
| "forEach body (i # is) s =
     (case body i s of
        (None, s') \<Rightarrow> forEach body is s'
      | (Some e, s') \<Rightarrow> (Some e, s'))"

definition parallelFor :: "Executor \<Rightarrow> nat \<times> nat \<Rightarrow> (nat \<Rightarrow> 's \<Rightarrow> 's result) \<Rightarrow> 's \<Rightarrow> 's result" where
  "parallelFor ex interval body s = forEach body [fst interval ..< snd interval] s"

text \<open>
  The overload that takes a field: the kernel returns the new value of element \<open>i\<close>, and
  the dispatch stores it, for every \<open>i\<close> below the field's size. The kernel may read the
  buffer through a view it captured, so it receives the buffer's current contents.
\<close>

definition parallelFor_Field :: "'a Field \<Rightarrow> (nat \<Rightarrow> 'a list \<Rightarrow> error + 'a) \<Rightarrow> 'a Field result" where
  "parallelFor_Field a kern =
     (case parallelFor (fieldExec a) (0, size_Field a)
             (\<lambda>i d. case kern i d of Inl e \<Rightarrow> (Some e, d) | Inr v \<Rightarrow> span_write d i v)
             (span a) of
        (r, d') \<Rightarrow> (r, a\<lparr>fieldData := d'\<rparr>))"

section \<open>Field operations\<close>

text \<open>
  \<^verbatim>\<open>fill(a, value, interval)\<close>: the interval defaults to the whole field; the kernel stores
  \<open>value\<close> at each index of the interval.
\<close>

definition fill :: "'a Field \<Rightarrow> 'a \<Rightarrow> (nat \<times> nat) option \<Rightarrow> 'a Field result" where
  "fill a v interval =
     (let start = (case interval of None \<Rightarrow> 0 | Some p \<Rightarrow> fst p);
          end_ix = (case interval of None \<Rightarrow> size_Field a | Some p \<Rightarrow> snd p)
      in case parallelFor (fieldExec a) (start, end_ix) (\<lambda>i d. span_write d i v) (span a) of
           (r, d') \<Rightarrow> (r, a\<lparr>fieldData := d'\<rparr>))"

text \<open>
  \<^verbatim>\<open>setField(a, b)\<close>: one dispatch over the indices of \<open>a\<close>, the kernel returning \<open>b[i]\<close>.
  The source compares no lengths here.
\<close>

definition setField :: "'a Field \<Rightarrow> 'a list \<Rightarrow> 'a Field result" where
  "setField a b = parallelFor_Field a (\<lambda>i d. span_read b i)"

text \<open>\<^verbatim>\<open>scalarMul(a, value)\<close>: the kernel returns \<open>spanA[i] * value\<close>.\<close>

definition scalarMul :: "'a::times Field \<Rightarrow> 'a \<Rightarrow> 'a Field result" where
  "scalarMul a v =
     parallelFor_Field a
       (\<lambda>i d. case span_read d i of Inl e \<Rightarrow> Inl e | Inr x \<Rightarrow> Inr (x * v))"

text \<open>
  Modelled from the spec: the macro \<^verbatim>\<open>NeoFOAM_ASSERT_EQUAL_LENGTH\<close> (helpers/exceptions.hpp) is
  not among the sources. It raises \<open>LengthMismatch\<close> when the sizes of its two operands differ
  and does nothing otherwise.
\<close>

definition NeoFOAM_ASSERT_EQUAL_LENGTH :: "'a Field \<Rightarrow> 'a Field \<Rightarrow> error option" where
  "NeoFOAM_ASSERT_EQUAL_LENGTH a b =
     (if size_Field a \<noteq> size_Field b then Some LengthMismatch else None)"

text \<open>
  \<^verbatim>\<open>detail::fieldBinaryOp\<close>: the assertion is the first statement, so its exception leaves
  \<open>a\<close> as it was. The kernel reads \<open>a\<close> through the view \<open>spanA\<close>, that is the current
  buffer, and \<open>b\<close> through \<open>spanB\<close>.
\<close>

definition fieldBinaryOp :: "'a Field \<Rightarrow> 'a Field \<Rightarrow> ('a \<Rightarrow> 'a \<Rightarrow> 'a) \<Rightarrow> 'a Field result" where
  "fieldBinaryOp a b op =
     (case NeoFOAM_ASSERT_EQUAL_LENGTH a b of
        Some e \<Rightarrow> (Some e, a)
      | None \<Rightarrow>
          parallelFor_Field a
            (\<lambda>i d. case span_read d i of
                      Inl e \<Rightarrow> Inl e
                    | Inr va \<Rightarrow> (case span_read (span b) i of
                                   Inl e \<Rightarrow> Inl e
                                 | Inr vb \<Rightarrow> Inr (op va vb))))"

definition add :: "'a::plus Field \<Rightarrow> 'a Field \<Rightarrow> 'a Field result" where
  "add a b = fieldBinaryOp a b (\<lambda>va vb. va + vb)"

definition sub :: "'a::minus Field \<Rightarrow> 'a Field \<Rightarrow> 'a Field result" where
  "sub a b = fieldBinaryOp a b (\<lambda>va vb. va - vb)"

definition mul :: "'a::times Field \<Rightarrow> 'a Field \<Rightarrow> 'a Field result" where
  "mul a b = fieldBinaryOp a b (\<lambda>va vb. va * vb)"

text \<open>
  \<^verbatim>\<open>equal(field, field2)\<close> in the text that takes the views from two named host copies
  (\<^verbatim>\<open>copyToHosts\<close>, then \<^verbatim>\<open>spans\<close>): the copies live to the end of the function, the sizes are
  compared, and only then the elements, with the scalar's own \<^verbatim>\<open>!=\<close>, here the parameter \<open>ne\<close>
  (for a floating-point scalar it is not the negation of logical equality). The loop returns
  at the first pair that differs. The second component counts the evaluations of \<^verbatim>\<open>!=\<close>: it
  is not in the source and only records how many elements the call compared.
\<close>

function equal_loop :: "('a \<Rightarrow> 'a \<Rightarrow> bool) \<Rightarrow> 'a list \<Rightarrow> 'a list \<Rightarrow> nat \<Rightarrow> nat \<Rightarrow> bool \<times> nat" where
  "equal_loop ne hostSpan hostSpan2 i n =
     (if i < length hostSpan then
        (if ne (hostSpan ! i) (hostSpan2 ! i) then (False, n + 1)
         else equal_loop ne hostSpan hostSpan2 (i + 1) (n + 1))
      else (True, n))"
  by pat_completeness auto
termination
  by (relation "measure (\<lambda>(ne, hostSpan, hostSpan2, i, n). length hostSpan - i)") auto

declare equal_loop.simps [simp del]

definition equal_Field :: "('a \<Rightarrow> 'a \<Rightarrow> bool) \<Rightarrow> 'a Field \<Rightarrow> 'a Field \<Rightarrow> bool \<times> nat" where
  "equal_Field ne field field2 =
     (let hostSpan = span (copyToHost field);
          hostSpan2 = span (copyToHost field2)
      in if length hostSpan \<noteq> length hostSpan2 then (False, 0)
         else equal_loop ne hostSpan hostSpan2 0 0)"

text \<open>
  Modelled from the spec: \<^verbatim>\<open>Field::field()\<close> is not among the sources; as \<^verbatim>\<open>span()\<close> it gives a
  view of the buffer. A view is its extent together with the storage it points to; when
  the field that owns the storage is destroyed the extent stays readable and the storage is
  gone. Reading an element through such a view is undefined in C++, as are a read beyond
  the extent and the overflow of an \<^verbatim>\<open>int\<close> counter; the model stops there.
\<close>

datatype undefined_behaviour = UseAfterFree | OutOfRangeRead | SignedOverflow

record 'a view =
  extent :: nat
  storage :: "'a list option"

definition field_view :: "'a Field \<Rightarrow> 'a view" where
  "field_view a = \<lparr>extent = size_Field a, storage = Some (fieldData a)\<rparr>"

definition destroyed :: "'a view \<Rightarrow> 'a view" where
  "destroyed v = v\<lparr>storage := None\<rparr>"

definition view_read :: "'a view \<Rightarrow> nat \<Rightarrow> undefined_behaviour + 'a" where
  "view_read v i =
     (case storage v of
        None \<Rightarrow> Inl UseAfterFree
      | Some d \<Rightarrow> if i < extent v \<and> i < length d then Inr (d ! i) else Inl OutOfRangeRead)"

text \<open>
  \<^verbatim>\<open>equal(field, field2)\<close> in the text of fields/operations/Comparison.hpp. It takes each view
  from a temporary: \<^verbatim>\<open>auto hostSpan = field.copyToHost().field();\<close>. The host copy is destroyed
  at the end of that declaration, before the sizes are compared and the loop runs. The loop
  counter is an \<^verbatim>\<open>int\<close>, whose largest value is \<open>2147483647\<close>.
\<close>

function equal_loop_Comparison ::
  "('a \<Rightarrow> 'a \<Rightarrow> bool) \<Rightarrow> 'a view \<Rightarrow> 'a view \<Rightarrow> nat \<Rightarrow> nat \<Rightarrow> undefined_behaviour + bool \<times> nat" where
  "equal_loop_Comparison ne hostSpan hostSpan2 i n =
     (if i < extent hostSpan then
        (case view_read hostSpan i of
           Inl u \<Rightarrow> Inl u
         | Inr x \<Rightarrow>
             (case view_read hostSpan2 i of
                Inl u \<Rightarrow> Inl u
              | Inr y \<Rightarrow>
                  if ne x y then Inr (False, n + 1)
                  else if i = 2147483647 then Inl SignedOverflow
                  else equal_loop_Comparison ne hostSpan hostSpan2 (i + 1) (n + 1)))
      else Inr (True, n))"
  by pat_completeness auto
termination
  by (relation "measure (\<lambda>(ne, hostSpan, hostSpan2, i, n). extent hostSpan - i)") auto

declare equal_loop_Comparison.simps [simp del]

definition equal_Field_Comparison ::
  "('a \<Rightarrow> 'a \<Rightarrow> bool) \<Rightarrow> 'a Field \<Rightarrow> 'a Field \<Rightarrow> undefined_behaviour + bool \<times> nat" where
  "equal_Field_Comparison ne field field2 =
     (let hostSpan = destroyed (field_view (copyToHost field));
          hostSpan2 = destroyed (field_view (copyToHost field2))
      in if extent hostSpan \<noteq> extent hostSpan2 then Inr (False, 0)
         else equal_loop_Comparison ne hostSpan hostSpan2 0 0)"

section \<open>The scalar type\<close>

text \<open>
  The sources declare \<^verbatim>\<open>scalar\<close> as \<^verbatim>\<open>double\<close> (or \<^verbatim>\<open>float\<close>). The type below stands for the
  doubles whose value is an integer, each written as that integer; they are closed under
  addition and subtraction. Following IEEE 754 in its default rounding mode, the sum or
  difference of two doubles is the exact result rounded to 53 significant bits, to the
  nearest value and to the even one of two nearest. Exponent overflow is left out: the
  definitions are right for results below \<open>2^1024\<close> in magnitude. Equality of two such
  doubles in C++ is equality of their values.
\<close>

definition round53 :: "int \<Rightarrow> int" where
  "round53 x =
     (let m = \<bar>x\<bar>; k = bitlen m - 53
      in if k \<le> 0 then x
         else (let q = m div 2 ^ nat k;
                   r = m mod 2 ^ nat k;
                   half = 2 ^ nat (k - 1);
                   q' = (if half < r \<or> (r = half \<and> odd q) then q + 1 else q)
               in sgn x * (q' * 2 ^ nat k)))"

datatype double = Double int

instantiation double :: "{plus, minus}"
begin

fun plus_double :: "double \<Rightarrow> double \<Rightarrow> double" where
  "plus_double (Double x) (Double y) = Double (round53 (x + y))"

fun minus_double :: "double \<Rightarrow> double \<Rightarrow> double" where
  "minus_double (Double x) (Double y) = Double (round53 (x - y))"

instance ..

end

section \<open>Terms\<close>

text \<open>
  Modelled from the spec: the class \<^verbatim>\<open>Operator\<close>, the type \<^verbatim>\<open>Coeff\<close> and the products
  \<^verbatim>\<open>scalar * Operator\<close> and \<^verbatim>\<open>Coeff * Operator\<close> (dsl/operator.hpp, dsl/coeff.hpp) are not among
  the sources. A term carries a category fixed at construction, a scalar coefficient, its
  executor, and the evaluation supplied by its concrete variant: \<open>model\<close>, which reads the
  coefficient and updates the accumulator in place. Scaling a term gives a copy whose
  coefficient is multiplied by the scale; category, executor and variant stay.
\<close>

datatype Type = Temporal | Implicit | Explicit

record 'a Operator =
  getType :: Type
  getCoefficient :: 'a
  operatorExec :: Executor
  model :: "'a \<Rightarrow> 'a Field \<Rightarrow> 'a Field"

datatype 'a Coeff = Coeff 'a

definition times_scalar_Operator :: "'a::times \<Rightarrow> 'a Operator \<Rightarrow> 'a Operator" where
  "times_scalar_Operator scale t = t\<lparr>getCoefficient := getCoefficient t * scale\<rparr>"

fun times_Coeff_Operator :: "'a::times Coeff \<Rightarrow> 'a Operator \<Rightarrow> 'a Operator" where
  "times_Coeff_Operator (Coeff c) t = t\<lparr>getCoefficient := getCoefficient t * c\<rparr>"

text \<open>
  The state of an evaluation is the accumulator together with the list of the terms whose
  \<^verbatim>\<open>explicitOperation\<close> has been called so far, in call order. The list is not in the
  source; it makes the calls an evaluation performs observable.
\<close>

type_synonym 'a evaluation = "'a Field \<times> 'a Operator list"

definition Operator_explicitOperation :: "'a Operator \<Rightarrow> 'a evaluation \<Rightarrow> 'a evaluation" where
  "Operator_explicitOperation t s = (model t (getCoefficient t) (fst s), snd s @ [t])"

section \<open>Expressions\<close>

text \<open>
  \<^verbatim>\<open>class Expression\<close> of dsl/expression.hpp: an executor and three vectors of terms.
\<close>

record 'a Expression =
  exec :: Executor
  temporalOperators :: "'a Operator list"
  implicitOperators :: "'a Operator list"
  explicitOperators :: "'a Operator list"

definition Expression_ctor :: "Executor \<Rightarrow> 'a Expression" where
  "Expression_ctor ex =
     \<lparr>exec = ex, temporalOperators = [], implicitOperators = [], explicitOperators = []\<rparr>"

text \<open>
  \<^verbatim>\<open>explicitOperation(Field<scalar>& source)\<close>: the range-based loop over
  \<^verbatim>\<open>explicitOperators_\<close>, each call returning before the next starts.
\<close>

fun explicitOperation_loop :: "'a Operator list \<Rightarrow> 'a evaluation \<Rightarrow> 'a evaluation" where
  "explicitOperation_loop [] source = source"
| "explicitOperation_loop (t # ts) source =
     explicitOperation_loop ts (Operator_explicitOperation t source)"

definition explicitOperation :: "'a Expression \<Rightarrow> 'a evaluation \<Rightarrow> 'a evaluation" where
  "explicitOperation e source = explicitOperation_loop (explicitOperators e) source"

text \<open>
  \<^verbatim>\<open>explicitOperation(size_t nCells)\<close>: a new field on the expression's executor, \<open>nCells\<close>
  elements, each \<open>0.0\<close>, handed to the overload above.
\<close>

definition explicitOperation_nCells ::
  "'a::zero Expression \<Rightarrow> nat \<Rightarrow> 'a Operator list \<Rightarrow> 'a evaluation" where
  "explicitOperation_nCells e nCells calls =
     (let source = Field_ctor (exec e) nCells 0 in explicitOperation e (source, calls))"

definition addOperator :: "'a Expression \<Rightarrow> 'a Operator \<Rightarrow> 'a Expression" where
  "addOperator e t =
     (case getType t of
        Temporal \<Rightarrow> e\<lparr>temporalOperators := temporalOperators e @ [t]\<rparr>
      | Implicit \<Rightarrow> e\<lparr>implicitOperators := implicitOperators e @ [t]\<rparr>
      | Explicit \<Rightarrow> e\<lparr>explicitOperators := explicitOperators e @ [t]\<rparr>)"

text \<open>
  \<^verbatim>\<open>addExpression(const Expression& equation)\<close>: three loops, each pushing the terms of one
  vector of \<open>equation\<close> onto the matching vector of the receiver. The argument is a constant
  reference to another object and is only read.
\<close>

fun push_back_all :: "'b list \<Rightarrow> 'b list \<Rightarrow> 'b list" where
  "push_back_all dst [] = dst"
| "push_back_all dst (x # xs) = push_back_all (dst @ [x]) xs"

definition addExpression :: "'a Expression \<Rightarrow> 'a Expression \<Rightarrow> 'a Expression" where
  "addExpression e equation =
     (let e1 = e\<lparr>temporalOperators :=
                   push_back_all (temporalOperators e) (temporalOperators equation)\<rparr>;
          e2 = e1\<lparr>implicitOperators :=
                    push_back_all (implicitOperators e1) (implicitOperators equation)\<rparr>
      in e2\<lparr>explicitOperators :=
               push_back_all (explicitOperators e2) (explicitOperators equation)\<rparr>)"

definition size_Expression :: "'a Expression \<Rightarrow> nat" where
  "size_Expression e =
     length (temporalOperators e) + length (implicitOperators e) + length (explicitOperators e)"

text \<open>The three overloads of \<^verbatim>\<open>operator+\<close>; the left operand is taken by value.\<close>

definition plus_Expression_Expression :: "'a Expression \<Rightarrow> 'a Expression \<Rightarrow> 'a Expression" where
  "plus_Expression_Expression lhs rhs = addExpression lhs rhs"

definition plus_Expression_Operator :: "'a Expression \<Rightarrow> 'a Operator \<Rightarrow> 'a Expression" where
  "plus_Expression_Operator lhs rhs = addOperator lhs rhs"

definition plus_Operator_Operator :: "'a Operator \<Rightarrow> 'a Operator \<Rightarrow> 'a Expression" where
  "plus_Operator_Operator lhs rhs =
     (let expr = Expression_ctor (operatorExec lhs);
          expr = addOperator expr lhs
      in addOperator expr rhs)"

text \<open>
  \<^verbatim>\<open>operator*(scalar scale, const Expression& es)\<close>: a new expression on the executor of
  \<open>es\<close>; the terms of the temporal, then the implicit, then the explicit vector of \<open>es\<close> are
  scaled and handed to \<open>addOperator\<close>, which files each under its own category.
\<close>

fun addOperator_scaled :: "'a::times \<Rightarrow> 'a Operator list \<Rightarrow> 'a Expression \<Rightarrow> 'a Expression" where
  "addOperator_scaled scale [] expr = expr"
| "addOperator_scaled scale (t # ts) expr =
     addOperator_scaled scale ts (addOperator expr (times_scalar_Operator scale t))"

definition times_scalar_Expression :: "'a::times \<Rightarrow> 'a Expression \<Rightarrow> 'a Expression" where
  "times_scalar_Expression scale es =
     (let expr = Expression_ctor (exec es);
          expr = addOperator_scaled scale (temporalOperators es) expr;
          expr = addOperator_scaled scale (implicitOperators es) expr
      in addOperator_scaled scale (explicitOperators es) expr)"

text \<open>The three overloads of \<^verbatim>\<open>operator-\<close>, with the factors \<^verbatim>\<open>-1.0\<close> and \<^verbatim>\<open>Coeff(-1)\<close>.\<close>

definition minus_Expression_Expression ::
  "'a::{one,uminus,times} Expression \<Rightarrow> 'a Expression \<Rightarrow> 'a Expression" where
  "minus_Expression_Expression lhs rhs = addExpression lhs (times_scalar_Expression (- 1) rhs)"

definition minus_Expression_Operator ::
  "'a::{one,uminus,times} Expression \<Rightarrow> 'a Operator \<Rightarrow> 'a Expression" where
  "minus_Expression_Operator lhs rhs = addOperator lhs (times_scalar_Operator (- 1) rhs)"

definition minus_Operator_Operator ::
  "'a::{one,uminus,times} Operator \<Rightarrow> 'a Operator \<Rightarrow> 'a Expression" where
  "minus_Operator_Operator lhs rhs =
     (let expr = Expression_ctor (operatorExec lhs);
          expr = addOperator expr lhs
      in addOperator expr (times_Coeff_Operator (Coeff (- 1)) rhs))"

text \<open>
  An expression is well formed when each vector holds terms of its own category only.
  The constructor gives a well-formed expression and \<open>addOperator\<close>, \<open>addExpression\<close> and the
  operators keep it so; only the mutable getters can break it.
\<close>

definition wellFormed :: "'a Expression \<Rightarrow> bool" where
  "wellFormed e \<longleftrightarrow>
     list_all (\<lambda>t. getType t = Temporal) (temporalOperators e) \<and>
     list_all (\<lambda>t. getType t = Implicit) (implicitOperators e) \<and>
     list_all (\<lambda>t. getType t = Explicit) (explicitOperators e)"

definition allOperators :: "'a Expression \<Rightarrow> 'a Operator list" where
  "allOperators e = temporalOperators e @ implicitOperators e @ explicitOperators e"

section \<open>The run-time factory\<close>

text \<open>
  \<^verbatim>\<open>BaseClassRegistry::classMap()\<close> is a map from names to creation functions. The model
  keeps it as an association list in registration order; \<open>registerClass\<close> never adds a name
  twice, so its length is the map's size. A call of a creation function either returns an
  owning pointer, which may be null (\<open>None\<close>), or throws; of the exceptions only
  \<^verbatim>\<open>std::out_of_range\<close> (with the classes derived from it) is told apart, since it is the one
  \<open>create\<close> catches.
\<close>

datatype cxx_exception = std_out_of_range | other_exception

type_synonym ('args, 'b) CreateFunction = "'args \<Rightarrow> cxx_exception + 'b option"

type_synonym ('args, 'b) classMap = "(string \<times> ('args, 'b) CreateFunction) list"

text \<open>
  \<^verbatim>\<open>registerClass(name, createFunc)\<close>: \<^verbatim>\<open>insert\<close> leaves the map alone when the key exists, and
  the function then throws \<^verbatim>\<open>std::runtime_error\<close>; otherwise it returns \<open>true\<close>.
\<close>

definition registerClass ::
  "('args, 'b) classMap \<Rightarrow> string \<Rightarrow> ('args, 'b) CreateFunction
     \<Rightarrow> string + bool \<times> ('args, 'b) classMap" where
  "registerClass classMap name createFunc =
     (case map_of classMap name of
        Some f \<Rightarrow> Inl ''Insertion failed: Key already exists.''
      | None \<Rightarrow> Inr (True, classMap @ [(name, createFunc)]))"

text \<open>\<^verbatim>\<open>std::to_string\<close> on an unsigned value: its decimal digits.\<close>

definition digit :: "nat \<Rightarrow> char" where
  "digit d = ''0123456789'' ! d"

function to_string :: "nat \<Rightarrow> string" where
  "to_string n = (if n < 10 then [digit n] else to_string (n div 10) @ [digit (n mod 10)])"
  by pat_completeness auto
termination
  by (relation "measure (\<lambda>n. n)") auto

declare to_string.simps [simp del]

text \<open>
  Modelled from the spec: the macro \<^verbatim>\<open>NF_ERROR_EXIT\<close> (core/error.hpp) is not among the
  sources; it reports the message and terminates the process, so the \<^verbatim>\<open>return nullptr\<close> that
  follows it in \<open>create\<close> is never reached.
\<close>

datatype 'r outcome = Returned 'r | Terminated string | Propagated cxx_exception

definition NF_ERROR_EXIT :: "string \<Rightarrow> 'r outcome" where
  "NF_ERROR_EXIT msg = Terminated msg"

text \<open>
  \<^verbatim>\<open>create(name, args...)\<close> of \<^verbatim>\<open>MAKE_CLASS_A_RUNTIME_FACTORY\<close>. The \<^verbatim>\<open>try\<close> block holds both
  \<^verbatim>\<open>classMap().at(name)\<close>, which throws \<^verbatim>\<open>std::out_of_range\<close> for an unknown name, and the call
  \<^verbatim>\<open>regCreate(args...)\<close>; the handler catches \<^verbatim>\<open>std::out_of_range\<close> from either, builds the
  message and exits. Any other exception of the call leaves \<open>create\<close>.
\<close>

definition out_of_range_handler :: "('args, 'b) classMap \<Rightarrow> string \<Rightarrow> 'b option outcome" where
  "out_of_range_handler classMap name =
     (let msg = '' Could not find constructor for '' @ name;
          msg = msg @ (''valid constructors are: '' @ to_string (length classMap))
      in NF_ERROR_EXIT msg)"

definition create :: "('args, 'b) classMap \<Rightarrow> string \<Rightarrow> 'args \<Rightarrow> 'b option outcome" where
  "create classMap name args =
     (case map_of classMap name of
        None \<Rightarrow> out_of_range_handler classMap name
      | Some regCreate \<Rightarrow>
          (case regCreate args of
             Inr handle \<Rightarrow> Returned handle
           | Inl std_out_of_range \<Rightarrow> out_of_range_handler classMap name
           | Inl other_exception \<Rightarrow> Propagated other_exception))"

section \<open>Example values\<close>

text \<open>
  A term whose variant adds \<open>coefficient * k\<close> to every element of the accumulator, and an
  expression with one temporal and two explicit such terms.
\<close>

definition constantTerm :: "Type \<Rightarrow> int \<Rightarrow> int \<Rightarrow> int Operator" where
  "constantTerm ty c k =
     \<lparr>getType = ty, getCoefficient = c, operatorExec = SerialExecutor,
      model = (\<lambda>coeff f. f\<lparr>fieldData := map (\<lambda>x. x + coeff * k) (fieldData f)\<rparr>)\<rparr>"

definition exampleExpression :: "int Expression" where
  "exampleExpression =
     \<lparr>exec = SerialExecutor,
      temporalOperators = [constantTerm Temporal 1 1],
      implicitOperators = [],
      explicitOperators = [constantTerm Explicit 1 3, constantTerm Explicit 2 5]\<rparr>"

text \<open>
  \<^verbatim>\<open>Calculated::create\<close> and \<^verbatim>\<open>Calculated::name\<close> of finiteVolume/cellCentred.hpp: the creation
  function makes a new object from the mesh and the patch and ignores the dictionary.
\<close>

datatype 'mesh Calculated = Calculated 'mesh nat

definition Calculated_create :: "('mesh \<times> 'dict \<times> nat, 'mesh Calculated) CreateFunction" where
  "Calculated_create args =
     (case args of (mesh, dict, patchID) \<Rightarrow> Inr (Some (Calculated mesh patchID)))"

definition Calculated_name :: string where
  "Calculated_name = ''calculated''"

text \<open>
  A creation function that returns the null pointer, and one that throws
  \<^verbatim>\<open>std::out_of_range\<close>, as a call of \<^verbatim>\<open>at\<close> on a container inside a constructor does.
\<close>

definition null_create :: "('args, 'b) CreateFunction" where
  "null_create args = Inr None"

definition throwing_create :: "('args, 'b) CreateFunction" where
  "throwing_create args = Inl std_out_of_range"

text \<open>A creation function that throws some other exception.\<close>

definition failing_create :: "('args, 'b) CreateFunction" where
  "failing_create args = Inl other_exception"

text \<open>A registry of four classes.\<close>

definition exampleClassMap :: "(unit \<times> unit \<times> nat, unit Calculated) classMap" where
  "exampleClassMap =
     [(Calculated_name, Calculated_create), (''empty'', null_create),
      (''lookup'', throwing_create), (''broken'', failing_create)]"

section \<open>The dispatch loop\<close>

lemma forEach_append:
  "forEach body (xs @ ys) s =
     (case forEach body xs s of
        (None, s') \<Rightarrow> forEach body ys s'
      | (Some e, s') \<Rightarrow> (Some e, s'))"
  by (induction xs arbitrary: s) (auto split: prod.splits option.splits)

text \<open>
  A body that stores \<open>g i\<close> at index \<open>i\<close> whenever the buffer still holds the original
  element there turns the first \<open>n\<close> elements into \<open>g 0, ..., g (n - 1)\<close>.
\<close>

lemma forEach_pointwise:
  assumes step: "\<And>i d'. i < length d \<Longrightarrow> length d' = length d \<Longrightarrow> d' ! i = d ! i
                   \<Longrightarrow> body i d' = (None, d'[i := g i])"
    and n: "n \<le> length d"
  shows "forEach body [0..<n] d = (None, map g [0..<n] @ drop n d)"
  using n
proof (induction n)
  case 0
  then show ?case by simp
next
  case (Suc n)
  let ?d' = "map g [0..<n] @ drop n d"
  from Suc have ih: "forEach body [0..<n] d = (None, ?d')" and lt: "n < length d"
    by simp_all
  have len: "length ?d' = length d" using lt by simp
  have nth: "?d' ! n = d ! n" using lt by (simp add: nth_append)
  have upd: "?d'[n := g n] = map g [0..<Suc n] @ drop (Suc n) d"
    using lt by (simp add: list_update_append Cons_nth_drop_Suc [symmetric])
  show ?case
    using ih step [OF lt len nth] upd by (simp add: forEach_append)
qed

lemma parallelFor_Field_pointwise:
  assumes "\<And>i d'. i < size_Field a \<Longrightarrow> length d' = size_Field a \<Longrightarrow> d' ! i = fieldData a ! i
             \<Longrightarrow> kern i d' = Inr (g i)"
  shows "parallelFor_Field a kern = (None, a\<lparr>fieldData := map g [0..<size_Field a]\<rparr>)"
proof -
  let ?body = "\<lambda>i d. case kern i d of Inl e \<Rightarrow> (Some e, d) | Inr v \<Rightarrow> span_write d i v"
  have "forEach ?body [0..<length (fieldData a)] (fieldData a)
          = (None, map g [0..<length (fieldData a)] @ drop (length (fieldData a)) (fieldData a))"
  proof (rule forEach_pointwise)
    fix i d'
    assume "i < length (fieldData a)" "length d' = length (fieldData a)"
      "d' ! i = fieldData a ! i"
    then show "?body i d' = (None, d'[i := g i])"
      using assms [of i d'] by (simp add: size_Field_def span_write_def)
  qed simp
  then show ?thesis
    by (simp add: parallelFor_Field_def parallelFor_def size_Field_def span_def)
qed

section \<open>Filling an interval\<close>

lemma forEach_fill:
  "e \<le> length d \<Longrightarrow>
   forEach (\<lambda>i d. span_write d i v) [s..<e] d
     = (None, map (\<lambda>i. if s \<le> i \<and> i < e then v else d ! i) [0..<length d])"
proof (induction e)
  case 0
  then show ?case by (simp add: map_nth)
next
  case (Suc e)
  show ?case
  proof (cases "s \<le> e")
    case True
    let ?d' = "map (\<lambda>i. if s \<le> i \<and> i < e then v else d ! i) [0..<length d]"
    have ih: "forEach (\<lambda>i d. span_write d i v) [s..<e] d = (None, ?d')"
      using Suc by simp
    have upd: "?d'[e := v] = map (\<lambda>i. if s \<le> i \<and> i < Suc e then v else d ! i) [0..<length d]"
      by (rule nth_equalityI) (use True in \<open>auto simp: nth_list_update less_Suc_eq\<close>)
    show ?thesis
      using True Suc.prems ih upd by (simp add: forEach_append span_write_def)
  next
    case False
    then have "[s..<Suc e] = []" by simp
    moreover have "map (\<lambda>i. if s \<le> i \<and> i < Suc e then v else d ! i) [0..<length d] = d"
      by (rule nth_equalityI) (use False in auto)
    ultimately show ?thesis by simp
  qed
qed

text \<open>
  C10: for every field \<open>a\<close> and interval \<open>[s, e)\<close> with \<open>e \<le> a.size()\<close>, \<open>fill(a, v, {s, e})\<close>
  returns normally, writes \<open>v\<close> at exactly the indices of the interval and leaves every other
  element, the size and the executor of \<open>a\<close> as they were.
\<close>

theorem fill_interval_frame:
  assumes "e \<le> size_Field a"
  shows "fill a v (Some (s, e))
           = (None, a\<lparr>fieldData := map (\<lambda>i. if s \<le> i \<and> i < e then v else fieldData a ! i)
                                        [0..<size_Field a]\<rparr>)"
  using assms by (simp add: fill_def parallelFor_def span_def size_Field_def forEach_fill)

theorem fill_interval_frame_witness:
  "(3 :: nat) \<le> size_Field \<lparr>fieldExec = SerialExecutor, fieldData = [0, 0, 0, 0, 0 :: int]\<rparr> \<and>
   fill \<lparr>fieldExec = SerialExecutor, fieldData = [0, 0, 0, 0, 0 :: int]\<rparr> 7 (Some (1, 3))
     = (None, \<lparr>fieldExec = SerialExecutor, fieldData = [0, 7, 7, 0, 0]\<rparr>)"
proof -
  let ?a = "\<lparr>fieldExec = SerialExecutor, fieldData = [0, 0, 0, 0, 0 :: int]\<rparr>"
  have le: "(3 :: nat) \<le> size_Field ?a"
    by (simp add: size_Field_def)
  have upt: "[0..<5] = [0, 1, 2, 3, 4 :: nat]"
    by code_simp
  show ?thesis
    using le fill_interval_frame [OF le, of 7 1] by (simp add: size_Field_def upt)
qed

section \<open>Copying from a view\<close>

lemma setField_copy:
  assumes "size_Field a \<le> length b"
  shows "setField a b = (None, a\<lparr>fieldData := take (size_Field a) b\<rparr>)"
proof -
  have "parallelFor_Field a (\<lambda>i d. span_read b i)
          = (None, a\<lparr>fieldData := map (\<lambda>i. b ! i) [0..<size_Field a]\<rparr>)"
    by (rule parallelFor_Field_pointwise) (use assms in \<open>simp add: span_read_def\<close>)
  moreover have "map (\<lambda>i. b ! i) [0..<size_Field a] = take (size_Field a) b"
    by (rule nth_equalityI) (use assms in simp_all)
  ultimately show ?thesis by (simp add: setField_def)
qed

lemma setField_equal_length:
  "size_Field a = length b \<Longrightarrow> setField a b = (None, a\<lparr>fieldData := b\<rparr>)"
  by (simp add: setField_copy)

text \<open>
  C5: \<open>setField(a, b)\<close> is claimed to fail with \<open>LengthMismatch\<close> when the lengths differ. The
  function has no length test: with a field of two elements and a view of three it returns
  normally, having copied the first two elements of the view.
\<close>

theorem setField_longer_source:
  "setField \<lparr>fieldExec = SerialExecutor, fieldData = [0, 0 :: int]\<rparr> [1, 2, 3]
     = (None, \<lparr>fieldExec = SerialExecutor, fieldData = [1, 2]\<rparr>)"
  by code_simp

section \<open>Elementwise binary operations\<close>

lemma map_nth_map2:
  "length xs = n \<Longrightarrow> length ys = n \<Longrightarrow> map (\<lambda>i. f (xs ! i) (ys ! i)) [0..<n] = map2 f xs ys"
  by (rule nth_equalityI) simp_all

lemma fieldBinaryOp_equal_length:
  assumes "size_Field a = size_Field b"
  shows "fieldBinaryOp a b op = (None, a\<lparr>fieldData := map2 op (fieldData a) (fieldData b)\<rparr>)"
proof -
  have "parallelFor_Field a
          (\<lambda>i d. case span_read d i of
                    Inl e \<Rightarrow> Inl e
                  | Inr va \<Rightarrow> (case span_read (span b) i of
                                 Inl e \<Rightarrow> Inl e
                               | Inr vb \<Rightarrow> Inr (op va vb)))
        = (None, a\<lparr>fieldData := map (\<lambda>i. op (fieldData a ! i) (fieldData b ! i))
                                     [0..<size_Field a]\<rparr>)"
    by (rule parallelFor_Field_pointwise)
      (use assms in \<open>simp add: span_read_def span_def size_Field_def\<close>)
  then show ?thesis
    using assms
    by (simp add: fieldBinaryOp_def NeoFOAM_ASSERT_EQUAL_LENGTH_def size_Field_def map_nth_map2)
qed

lemma fieldBinaryOp_length_mismatch:
  "size_Field a \<noteq> size_Field b \<Longrightarrow> fieldBinaryOp a b op = (Some LengthMismatch, a)"
  by (simp add: fieldBinaryOp_def NeoFOAM_ASSERT_EQUAL_LENGTH_def)

text \<open>
  C6: for all fields \<open>a\<close> and \<open>b\<close>, each of \<open>add\<close>, \<open>sub\<close> and \<open>mul\<close> raises \<open>LengthMismatch\<close>
  when the sizes differ, with \<open>a\<close> exactly as it was before the call, and when the sizes
  agree returns normally with \<open>a\<close> holding the elementwise sum, difference or product.
\<close>

theorem add_sub_mul_spec:
  fixes a b :: "'a::{plus,minus,times} Field"
  shows "(size_Field a \<noteq> size_Field b \<longrightarrow>
            add a b = (Some LengthMismatch, a) \<and>
            sub a b = (Some LengthMismatch, a) \<and>
            mul a b = (Some LengthMismatch, a)) \<and>
         (size_Field a = size_Field b \<longrightarrow>
            add a b = (None, a\<lparr>fieldData := map2 (\<lambda>va vb. va + vb) (fieldData a) (fieldData b)\<rparr>) \<and>
            sub a b = (None, a\<lparr>fieldData := map2 (\<lambda>va vb. va - vb) (fieldData a) (fieldData b)\<rparr>) \<and>
            mul a b = (None, a\<lparr>fieldData := map2 (\<lambda>va vb. va * vb) (fieldData a) (fieldData b)\<rparr>))"
  by (simp add: add_def sub_def mul_def fieldBinaryOp_equal_length fieldBinaryOp_length_mismatch)

theorem add_sub_mul_spec_witness:
  "add \<lparr>fieldExec = SerialExecutor, fieldData = [6, 6, 6, 6 :: int]\<rparr>
       \<lparr>fieldExec = SerialExecutor, fieldData = [1, 1, 1]\<rparr>
     = (Some LengthMismatch, \<lparr>fieldExec = SerialExecutor, fieldData = [6, 6, 6, 6]\<rparr>) \<and>
   add \<lparr>fieldExec = SerialExecutor, fieldData = [6, 6, 6, 6 :: int]\<rparr>
       \<lparr>fieldExec = SerialExecutor, fieldData = [1, 1, 1, 1]\<rparr>
     = (None, \<lparr>fieldExec = SerialExecutor, fieldData = [7, 7, 7, 7]\<rparr>) \<and>
   sub \<lparr>fieldExec = SerialExecutor, fieldData = [6, 6, 6, 6 :: int]\<rparr>
       \<lparr>fieldExec = SerialExecutor, fieldData = [1, 1, 1, 1]\<rparr>
     = (None, \<lparr>fieldExec = SerialExecutor, fieldData = [5, 5, 5, 5]\<rparr>) \<and>
   mul \<lparr>fieldExec = SerialExecutor, fieldData = [6, 6, 6, 6 :: int]\<rparr>
       \<lparr>fieldExec = SerialExecutor, fieldData = [2, 2, 2, 2]\<rparr>
     = (None, \<lparr>fieldExec = SerialExecutor, fieldData = [12, 12, 12, 12]\<rparr>)"
  using
    add_sub_mul_spec [of "\<lparr>fieldExec = SerialExecutor, fieldData = [6, 6, 6, 6 :: int]\<rparr>"
                         "\<lparr>fieldExec = SerialExecutor, fieldData = [1, 1, 1]\<rparr>"]
    add_sub_mul_spec [of "\<lparr>fieldExec = SerialExecutor, fieldData = [6, 6, 6, 6 :: int]\<rparr>"
                         "\<lparr>fieldExec = SerialExecutor, fieldData = [1, 1, 1, 1]\<rparr>"]
    add_sub_mul_spec [of "\<lparr>fieldExec = SerialExecutor, fieldData = [6, 6, 6, 6 :: int]\<rparr>"
                         "\<lparr>fieldExec = SerialExecutor, fieldData = [2, 2, 2, 2]\<rparr>"]
  by (simp add: size_Field_def)

text \<open>
  The spec's scenario on a field of length 4: fill with 2, multiply by 3, add a field of
  ones; every element is 7.
\<close>

lemma scalarMul_elementwise:
  "scalarMul a v = (None, a\<lparr>fieldData := map (\<lambda>x. x * v) (fieldData a)\<rparr>)"
proof -
  have "parallelFor_Field a (\<lambda>i d. case span_read d i of Inl e \<Rightarrow> Inl e | Inr x \<Rightarrow> Inr (x * v))
          = (None, a\<lparr>fieldData := map (\<lambda>i. fieldData a ! i * v) [0..<size_Field a]\<rparr>)"
    by (rule parallelFor_Field_pointwise) (simp add: span_read_def)
  moreover have "map (\<lambda>i. fieldData a ! i * v) [0..<size_Field a] = map (\<lambda>x. x * v) (fieldData a)"
    by (rule nth_equalityI) (simp_all add: size_Field_def)
  ultimately show ?thesis by (simp add: scalarMul_def)
qed

lemma fill_scalarMul_add_scenario:
  "fill (Field_ctor SerialExecutor 4 (0 :: int)) 2 None
     = (None, \<lparr>fieldExec = SerialExecutor, fieldData = [2, 2, 2, 2]\<rparr>) \<and>
   scalarMul \<lparr>fieldExec = SerialExecutor, fieldData = [2, 2, 2, 2 :: int]\<rparr> 3
     = (None, \<lparr>fieldExec = SerialExecutor, fieldData = [6, 6, 6, 6]\<rparr>) \<and>
   add \<lparr>fieldExec = SerialExecutor, fieldData = [6, 6, 6, 6 :: int]\<rparr>
       (Field_ctor SerialExecutor 4 1)
     = (None, \<lparr>fieldExec = SerialExecutor, fieldData = [7, 7, 7, 7]\<rparr>)"
  by code_simp

text \<open>
  What \<open>add\<close> followed by \<open>sub\<close> of the same operand leaves in each element is
  \<open>(a[i] + b[i]) - b[i]\<close>, computed by the scalar type. Whether that is \<open>a[i]\<close> again depends on
  the scalar type alone; it is for every type in which subtraction cancels addition.
\<close>

lemma add_then_sub_elementwise:
  fixes a b :: "'a::{plus,minus} Field"
  assumes "size_Field a = size_Field b"
  shows "sub (snd (add a b)) b
           = (None, a\<lparr>fieldData := map2 (\<lambda>va vb. (va + vb) - vb) (fieldData a) (fieldData b)\<rparr>)"
proof -
  let ?s = "a\<lparr>fieldData := map2 (\<lambda>va vb. va + vb) (fieldData a) (fieldData b)\<rparr>"
  have s: "add a b = (None, ?s)"
    using assms by (simp add: add_def fieldBinaryOp_equal_length)
  have len: "size_Field ?s = size_Field b"
    using assms by (simp add: size_Field_def)
  have "map2 (\<lambda>va vb. va - vb) (map2 (\<lambda>va vb. va + vb) (fieldData a) (fieldData b)) (fieldData b)
          = map2 (\<lambda>va vb. (va + vb) - vb) (fieldData a) (fieldData b)"
    by (rule nth_equalityI) (use assms in \<open>simp_all add: size_Field_def\<close>)
  then show ?thesis
    using fieldBinaryOp_equal_length [OF len, of "\<lambda>va vb. va - vb"] by (simp add: s sub_def)
qed

lemma add_then_sub_cancel:
  fixes a b :: "'a::cancel_ab_semigroup_add Field"
  assumes "size_Field a = size_Field b"
  shows "sub (snd (add a b)) b = (None, a)"
proof -
  have "map2 (\<lambda>va vb. (va + vb) - vb) (fieldData a) (fieldData b) = fieldData a"
    by (rule nth_equalityI) (use assms in \<open>simp_all add: size_Field_def\<close>)
  then show ?thesis
    using add_then_sub_elementwise [OF assms] by simp
qed






section \<open>Comparing two fields\<close>

lemma equal_loop_fst:
  "length h = length h2 \<Longrightarrow>
   fst (equal_loop ne h h2 i n) = (\<forall>j. i \<le> j \<and> j < length h \<longrightarrow> \<not> ne (h ! j) (h2 ! j))"
proof (induction ne h h2 i n rule: equal_loop.induct)
  case (1 ne h h2 i n)
  show ?case
  proof (cases "i < length h")
    case False
    then show ?thesis by (subst equal_loop.simps) auto
  next
    case True
    show ?thesis
    proof (cases "ne (h ! i) (h2 ! i)")
      case differs: True
      then show ?thesis using True by (subst equal_loop.simps) auto
    next
      case same: False
      have "(\<forall>j. i \<le> j \<and> j < length h \<longrightarrow> \<not> ne (h ! j) (h2 ! j))
            = (\<forall>j. i + 1 \<le> j \<and> j < length h \<longrightarrow> \<not> ne (h ! j) (h2 ! j))"
      proof (intro iffI allI impI)
        fix j
        assume "\<forall>j. i \<le> j \<and> j < length h \<longrightarrow> \<not> ne (h ! j) (h2 ! j)"
          and "i + 1 \<le> j \<and> j < length h"
        then show "\<not> ne (h ! j) (h2 ! j)" by simp
      next
        fix j
        assume rest: "\<forall>j. i + 1 \<le> j \<and> j < length h \<longrightarrow> \<not> ne (h ! j) (h2 ! j)"
          and j: "i \<le> j \<and> j < length h"
        show "\<not> ne (h ! j) (h2 ! j)"
        proof (cases "j = i")
          case True
          then show ?thesis using same by simp
        next
          case False
          then have "i + 1 \<le> j \<and> j < length h" using j by simp
          then show ?thesis using rest by blast
        qed
      qed
      then show ?thesis
        using True same 1 by (subst equal_loop.simps) simp
    qed
  qed
qed

text \<open>
  The text that keeps the host copies alive: for two fields whose sizes differ it returns
  \<open>false\<close> normally and has compared no element; for equal sizes it returns \<open>true\<close> exactly
  when the scalar's \<^verbatim>\<open>!=\<close> holds for no pair of corresponding elements of the two host copies.
\<close>

lemma equal_Field_spec:
  "(size_Field field \<noteq> size_Field field2 \<longrightarrow> equal_Field ne field field2 = (False, 0)) \<and>
   (size_Field field = size_Field field2 \<longrightarrow>
      fst (equal_Field ne field field2)
        = (\<forall>i<size_Field field. \<not> ne (fieldData field ! i) (fieldData field2 ! i)))"
  by (simp add: equal_Field_def Let_def span_def copyToHost_def size_Field_def equal_loop_fst)

lemma equal_Field_spec_example:
  "equal_Field (\<lambda>x y. x \<noteq> y)
     \<lparr>fieldExec = GPUExecutor, fieldData = [1, 2 :: int]\<rparr>
     \<lparr>fieldExec = SerialExecutor, fieldData = [1, 2, 3]\<rparr> = (False, 0) \<and>
   fst (equal_Field (\<lambda>x y. x \<noteq> y)
     \<lparr>fieldExec = GPUExecutor, fieldData = [1, 2 :: int]\<rparr>
     \<lparr>fieldExec = SerialExecutor, fieldData = [1, 2]\<rparr>) \<and>
   \<not> fst (equal_Field (\<lambda>x y. x \<noteq> y)
     \<lparr>fieldExec = GPUExecutor, fieldData = [1, 2 :: int]\<rparr>
     \<lparr>fieldExec = SerialExecutor, fieldData = [1, 5]\<rparr>)"
  using
    equal_Field_spec [of "\<lparr>fieldExec = GPUExecutor, fieldData = [1, 2 :: int]\<rparr>"
                         "\<lparr>fieldExec = SerialExecutor, fieldData = [1, 2, 3]\<rparr>" "\<lambda>x y. x \<noteq> y"]
    equal_Field_spec [of "\<lparr>fieldExec = GPUExecutor, fieldData = [1, 2 :: int]\<rparr>"
                         "\<lparr>fieldExec = SerialExecutor, fieldData = [1, 2]\<rparr>" "\<lambda>x y. x \<noteq> y"]
    equal_Field_spec [of "\<lparr>fieldExec = GPUExecutor, fieldData = [1, 2 :: int]\<rparr>"
                         "\<lparr>fieldExec = SerialExecutor, fieldData = [1, 5]\<rparr>" "\<lambda>x y. x \<noteq> y"]
  by (simp add: size_Field_def less_Suc_eq eval_nat_numeral)

text \<open>
  The text of Comparison.hpp: the extents survive the host copies, so fields of different
  sizes are told apart without reading an element; for equal sizes the first pass of the
  loop reads through a view whose storage is gone.
\<close>

lemma equal_Field_Comparison_sizes_differ:
  "size_Field field \<noteq> size_Field field2 \<Longrightarrow> equal_Field_Comparison ne field field2 = Inr (False, 0)"
  by (simp add: equal_Field_Comparison_def Let_def destroyed_def field_view_def copyToHost_def
      size_Field_def)

lemma equal_Field_Comparison_empty:
  "size_Field field = 0 \<Longrightarrow> size_Field field2 = 0 \<Longrightarrow>
   equal_Field_Comparison ne field field2 = Inr (True, 0)"
  by (simp add: equal_Field_Comparison_def Let_def destroyed_def field_view_def copyToHost_def
      size_Field_def equal_loop_Comparison.simps)

lemma equal_Field_Comparison_use_after_free:
  "size_Field field = size_Field field2 \<Longrightarrow> 0 < size_Field field \<Longrightarrow>
   equal_Field_Comparison ne field field2 = Inl UseAfterFree"
  by (simp add: equal_Field_Comparison_def Let_def destroyed_def field_view_def copyToHost_def
      size_Field_def equal_loop_Comparison.simps view_read_def)

text \<open>
  C9: \<open>equal(field, field2)\<close> is claimed to return \<open>true\<close>, for equal sizes, exactly when all
  corresponding elements are equal. On the fields \<open>[1, 2]\<close> and \<open>[1, 5]\<close> the text that keeps the
  host copies alive returns \<open>false\<close> after two comparisons; the text of Comparison.hpp reads
  its first element from a host copy that is already destroyed.
\<close>

theorem equal_Field_Comparison_destroyed_copies:
  "equal_Field_Comparison (\<lambda>x y. x \<noteq> y)
     \<lparr>fieldExec = SerialExecutor, fieldData = [1, 2 :: int]\<rparr>
     \<lparr>fieldExec = SerialExecutor, fieldData = [1, 5]\<rparr> = Inl UseAfterFree \<and>
   equal_Field (\<lambda>x y. x \<noteq> y)
     \<lparr>fieldExec = SerialExecutor, fieldData = [1, 2 :: int]\<rparr>
     \<lparr>fieldExec = SerialExecutor, fieldData = [1, 5]\<rparr> = (False, 2)"
  by (simp add: equal_Field_Comparison_def equal_Field_def Let_def destroyed_def field_view_def
      copyToHost_def size_Field_def span_def equal_loop_Comparison.simps equal_loop.simps
      view_read_def)

section \<open>Building expressions\<close>

lemma push_back_all_append: "push_back_all dst xs = dst @ xs"
  by (induction xs arbitrary: dst) simp_all

lemma addOperator_fields:
  "exec (addOperator e t) = exec e"
  "temporalOperators (addOperator e t)
     = temporalOperators e @ (if getType t = Temporal then [t] else [])"
  "implicitOperators (addOperator e t)
     = implicitOperators e @ (if getType t = Implicit then [t] else [])"
  "explicitOperators (addOperator e t)
     = explicitOperators e @ (if getType t = Explicit then [t] else [])"
  by (cases "getType t"; simp add: addOperator_def)+

lemma foldl_addOperator_fields:
  "exec (foldl addOperator e ts) = exec e"
  "temporalOperators (foldl addOperator e ts)
     = temporalOperators e @ filter (\<lambda>t. getType t = Temporal) ts"
  "implicitOperators (foldl addOperator e ts)
     = implicitOperators e @ filter (\<lambda>t. getType t = Implicit) ts"
  "explicitOperators (foldl addOperator e ts)
     = explicitOperators e @ filter (\<lambda>t. getType t = Explicit) ts"
  by (induction ts arbitrary: e; simp add: addOperator_fields)+

lemma addExpression_fields:
  "exec (addExpression e equation) = exec e"
  "temporalOperators (addExpression e equation)
     = temporalOperators e @ temporalOperators equation"
  "implicitOperators (addExpression e equation)
     = implicitOperators e @ implicitOperators equation"
  "explicitOperators (addExpression e equation)
     = explicitOperators e @ explicitOperators equation"
  by (simp_all add: addExpression_def Let_def push_back_all_append)

lemma wellFormed_Expression_ctor: "wellFormed (Expression_ctor ex)"
  by (simp add: wellFormed_def Expression_ctor_def)

lemma wellFormed_addOperator: "wellFormed e \<Longrightarrow> wellFormed (addOperator e t)"
  by (simp add: wellFormed_def addOperator_fields)

lemma wellFormed_addExpression:
  "wellFormed e \<Longrightarrow> wellFormed equation \<Longrightarrow> wellFormed (addExpression e equation)"
  by (simp add: wellFormed_def addExpression_fields)

text \<open>
  C3: for all expressions \<open>e1\<close> and \<open>e2\<close>, each vector of \<open>e1 + e2\<close> is the vector of \<open>e1\<close>
  followed by the vector of \<open>e2\<close> of the same category, so the three counts and the size
  add up and the order inside a category is kept; \<open>e2\<close> is only read. \<open>addOperator\<close> appends
  the term to the vector of the term's own category and leaves the other two as they were;
  the sum of an expression and a term has one term more, the sum of two terms has two.
\<close>

theorem plus_Expression_spec:
  "size_Expression (plus_Expression_Expression e1 e2) = size_Expression e1 + size_Expression e2 \<and>
   temporalOperators (plus_Expression_Expression e1 e2)
     = temporalOperators e1 @ temporalOperators e2 \<and>
   implicitOperators (plus_Expression_Expression e1 e2)
     = implicitOperators e1 @ implicitOperators e2 \<and>
   explicitOperators (plus_Expression_Expression e1 e2)
     = explicitOperators e1 @ explicitOperators e2 \<and>
   exec (plus_Expression_Expression e1 e2) = exec e1 \<and>
   temporalOperators (addOperator e1 t)
     = temporalOperators e1 @ (if getType t = Temporal then [t] else []) \<and>
   implicitOperators (addOperator e1 t)
     = implicitOperators e1 @ (if getType t = Implicit then [t] else []) \<and>
   explicitOperators (addOperator e1 t)
     = explicitOperators e1 @ (if getType t = Explicit then [t] else []) \<and>
   exec (addOperator e1 t) = exec e1 \<and>
   size_Expression (plus_Expression_Operator e1 t) = size_Expression e1 + 1 \<and>
   size_Expression (plus_Operator_Operator t t') = 2"
proof -
  have sum: "size_Expression (addExpression e1 e2) = size_Expression e1 + size_Expression e2"
    by (simp add: size_Expression_def addExpression_fields)
  have one: "size_Expression (addOperator e t) = size_Expression e + 1" for e :: "'a Expression"
    by (cases "getType t") (simp_all add: size_Expression_def addOperator_fields)
  have one': "size_Expression (addOperator e t') = size_Expression e + 1" for e :: "'a Expression"
    by (cases "getType t'") (simp_all add: size_Expression_def addOperator_fields)
  have two: "size_Expression (plus_Operator_Operator t t') = 2"
    by (simp add: plus_Operator_Operator_def Let_def one one')
      (simp add: size_Expression_def Expression_ctor_def)
  show ?thesis
    by (simp add: plus_Expression_Expression_def plus_Expression_Operator_def sum one two
        addExpression_fields addOperator_fields)
qed

theorem plus_Expression_spec_witness:
  "size_Expression (plus_Expression_Expression exampleExpression exampleExpression) = 6 \<and>
   temporalOperators (plus_Expression_Expression exampleExpression exampleExpression)
     = [constantTerm Temporal 1 1, constantTerm Temporal 1 1] \<and>
   implicitOperators (plus_Expression_Expression exampleExpression exampleExpression) = [] \<and>
   explicitOperators (plus_Expression_Expression exampleExpression exampleExpression)
     = [constantTerm Explicit 1 3, constantTerm Explicit 2 5,
        constantTerm Explicit 1 3, constantTerm Explicit 2 5] \<and>
   explicitOperators (addOperator exampleExpression (constantTerm Temporal 4 4))
     = explicitOperators exampleExpression"
proof -
  have fields:
    "temporalOperators exampleExpression = [constantTerm Temporal 1 1]"
    "implicitOperators exampleExpression = []"
    "explicitOperators exampleExpression = [constantTerm Explicit 1 3, constantTerm Explicit 2 5]"
    by (simp_all add: exampleExpression_def)
  have ty: "getType (constantTerm Temporal 4 4) = Temporal"
    by (simp add: constantTerm_def)
  show ?thesis
    using plus_Expression_spec
      [of exampleExpression exampleExpression "constantTerm Temporal 4 4"]
    by (simp add: fields ty size_Expression_def)
qed

section \<open>Evaluating the explicit terms\<close>

lemma explicitOperation_loop_eq:
  "explicitOperation_loop ts (source, calls)
     = (foldl (\<lambda>acc t. model t (getCoefficient t) acc) source ts, calls @ ts)"
  by (induction ts arbitrary: source calls) (simp_all add: Operator_explicitOperation_def)

text \<open>
  C1: for every expression and every accumulator, \<open>explicitOperation(accumulator)\<close> calls the
  \<open>explicitOperation\<close> of exactly the terms of the explicit vector, one after the other in
  the order of the vector, each on the accumulator the one before left, and calls no term
  of the temporal or implicit vector; it returns the accumulator so obtained. For an
  expression assembled by \<open>addOperator\<close> the calls are the explicit terms in the order they
  were added. The overload taking \<open>nCells\<close> does the same on a new field of \<open>nCells\<close> zeros on
  the expression's executor.
\<close>

theorem explicitOperation_spec:
  "explicitOperation e (source, calls)
     = (foldl (\<lambda>acc t. model t (getCoefficient t) acc) source (explicitOperators e),
        calls @ explicitOperators e) \<and>
   explicitOperation (foldl addOperator (Expression_ctor ex) ts) (source, calls)
     = (foldl (\<lambda>acc t. model t (getCoefficient t) acc) source
          (filter (\<lambda>t. getType t = Explicit) ts),
        calls @ filter (\<lambda>t. getType t = Explicit) ts) \<and>
   explicitOperation_nCells e nCells calls
     = explicitOperation e (\<lparr>fieldExec = exec e, fieldData = replicate nCells 0\<rparr>, calls)"
  by (simp add: explicitOperation_def explicitOperation_loop_eq foldl_addOperator_fields
      Expression_ctor_def explicitOperation_nCells_def Field_ctor_def)

theorem explicitOperation_spec_witness:
  "explicitOperation_nCells
     (plus_Operator_Operator (constantTerm Explicit 1 3) (constantTerm Explicit 2 5)) 4 []
   = (\<lparr>fieldExec = SerialExecutor, fieldData = [13, 13, 13, 13]\<rparr>,
      [constantTerm Explicit 1 3, constantTerm Explicit 2 5])"
  using explicitOperation_spec
    [where e = "plus_Operator_Operator (constantTerm Explicit 1 3) (constantTerm Explicit 2 5)"
       and nCells = 4 and calls = "[]"]
  by (simp add: explicitOperation_def plus_Operator_Operator_def addOperator_def
      Expression_ctor_def constantTerm_def eval_nat_numeral)

section \<open>Scaling an expression\<close>

lemma times_scalar_Operator_fields:
  "getType (times_scalar_Operator s t) = getType t"
  "getCoefficient (times_scalar_Operator s t) = getCoefficient t * s"
  "operatorExec (times_scalar_Operator s t) = operatorExec t"
  "model (times_scalar_Operator s t) = model t"
  by (simp_all add: times_scalar_Operator_def)

lemma addOperator_scaled_fields:
  "exec (addOperator_scaled s ts expr) = exec expr"
  "temporalOperators (addOperator_scaled s ts expr)
     = temporalOperators expr
         @ map (times_scalar_Operator s) (filter (\<lambda>t. getType t = Temporal) ts)"
  "implicitOperators (addOperator_scaled s ts expr)
     = implicitOperators expr
         @ map (times_scalar_Operator s) (filter (\<lambda>t. getType t = Implicit) ts)"
  "explicitOperators (addOperator_scaled s ts expr)
     = explicitOperators expr
         @ map (times_scalar_Operator s) (filter (\<lambda>t. getType t = Explicit) ts)"
  by (induction ts arbitrary: expr;
      simp add: addOperator_fields times_scalar_Operator_fields)+

lemma times_scalar_Expression_fields:
  "exec (times_scalar_Expression s es) = exec es"
  "temporalOperators (times_scalar_Expression s es)
     = map (times_scalar_Operator s) (filter (\<lambda>t. getType t = Temporal) (allOperators es))"
  "implicitOperators (times_scalar_Expression s es)
     = map (times_scalar_Operator s) (filter (\<lambda>t. getType t = Implicit) (allOperators es))"
  "explicitOperators (times_scalar_Expression s es)
     = map (times_scalar_Operator s) (filter (\<lambda>t. getType t = Explicit) (allOperators es))"
  by (simp_all add: times_scalar_Expression_def Let_def addOperator_scaled_fields
        Expression_ctor_def allOperators_def)

lemma length_filter_Type:
  "length (filter (\<lambda>t. getType t = Temporal) ts)
     + length (filter (\<lambda>t. getType t = Implicit) ts)
     + length (filter (\<lambda>t. getType t = Explicit) ts) = length ts"
proof (induction ts)
  case Nil
  then show ?case by simp
next
  case (Cons t ts)
  then show ?case by (cases "getType t") simp_all
qed

lemma size_times_scalar_Expression:
  "size_Expression (times_scalar_Expression s es) = size_Expression es"
  using length_filter_Type [of "allOperators es"]
  by (simp add: size_Expression_def times_scalar_Expression_fields)
    (simp add: allOperators_def)

lemma filter_all: "list_all P xs \<Longrightarrow> filter P xs = xs"
  by (simp add: list_all_iff)

lemma filter_Type_other:
  "list_all (\<lambda>t. getType t = c) ts \<Longrightarrow> c \<noteq> c' \<Longrightarrow> filter (\<lambda>t. getType t = c') ts = []"
  by (induction ts) auto

lemma wellFormed_filters:
  assumes "wellFormed e"
  shows "filter (\<lambda>t. getType t = Temporal) (allOperators e) = temporalOperators e"
    and "filter (\<lambda>t. getType t = Implicit) (allOperators e) = implicitOperators e"
    and "filter (\<lambda>t. getType t = Explicit) (allOperators e) = explicitOperators e"
  using assms
  by (simp_all add: wellFormed_def allOperators_def filter_all
        filter_Type_other [where c = Temporal] filter_Type_other [where c = Implicit]
        filter_Type_other [where c = Explicit])

lemma wellFormed_times_scalar_Expression: "wellFormed (times_scalar_Expression s es)"
  by (simp add: wellFormed_def times_scalar_Expression_fields list_all_iff
      times_scalar_Operator_fields)

text \<open>
  C4: for every expression \<open>e\<close> and scalar \<open>s\<close>, \<open>s * e\<close> has the size and the executor of \<open>e\<close>;
  its terms are the terms of \<open>e\<close>, each replaced by \<open>s * term\<close>, filed under the term's own
  category in the order temporal, implicit, explicit vector of \<open>e\<close>; for a well-formed \<open>e\<close>
  that is each vector of \<open>e\<close> with every term replaced by \<open>s * term\<close>. The scaled term has the
  category, executor and variant of the term and the coefficient multiplied by \<open>s\<close>. The
  argument \<open>e\<close> is only read.
\<close>

theorem times_scalar_Expression_spec:
  "size_Expression (times_scalar_Expression s e) = size_Expression e \<and>
   exec (times_scalar_Expression s e) = exec e \<and>
   temporalOperators (times_scalar_Expression s e)
     = map (times_scalar_Operator s) (filter (\<lambda>t. getType t = Temporal) (allOperators e)) \<and>
   implicitOperators (times_scalar_Expression s e)
     = map (times_scalar_Operator s) (filter (\<lambda>t. getType t = Implicit) (allOperators e)) \<and>
   explicitOperators (times_scalar_Expression s e)
     = map (times_scalar_Operator s) (filter (\<lambda>t. getType t = Explicit) (allOperators e)) \<and>
   (wellFormed e \<longrightarrow>
      temporalOperators (times_scalar_Expression s e)
        = map (times_scalar_Operator s) (temporalOperators e) \<and>
      implicitOperators (times_scalar_Expression s e)
        = map (times_scalar_Operator s) (implicitOperators e) \<and>
      explicitOperators (times_scalar_Expression s e)
        = map (times_scalar_Operator s) (explicitOperators e)) \<and>
   wellFormed (times_scalar_Expression s e) \<and>
   getType (times_scalar_Operator s t) = getType t \<and>
   getCoefficient (times_scalar_Operator s t) = getCoefficient t * s \<and>
   operatorExec (times_scalar_Operator s t) = operatorExec t \<and>
   model (times_scalar_Operator s t) = model t"
proof -
  have "wellFormed e \<Longrightarrow>
      temporalOperators (times_scalar_Expression s e)
        = map (times_scalar_Operator s) (temporalOperators e) \<and>
      implicitOperators (times_scalar_Expression s e)
        = map (times_scalar_Operator s) (implicitOperators e) \<and>
      explicitOperators (times_scalar_Expression s e)
        = map (times_scalar_Operator s) (explicitOperators e)"
    by (simp add: times_scalar_Expression_fields wellFormed_filters)
  then show ?thesis
    by (simp add: size_times_scalar_Expression times_scalar_Expression_fields
        times_scalar_Operator_fields wellFormed_times_scalar_Expression)
qed

theorem times_scalar_Expression_spec_witness:
  "wellFormed exampleExpression \<and>
   size_Expression (times_scalar_Expression 2 exampleExpression) = 3 \<and>
   temporalOperators (times_scalar_Expression 2 exampleExpression) = [constantTerm Temporal 2 1] \<and>
   implicitOperators (times_scalar_Expression 2 exampleExpression) = [] \<and>
   explicitOperators (times_scalar_Expression 2 exampleExpression)
     = [constantTerm Explicit 2 3, constantTerm Explicit 4 5]"
proof -
  have wf: "wellFormed exampleExpression"
    by (simp add: wellFormed_def exampleExpression_def constantTerm_def)
  have scale: "times_scalar_Operator 2 (constantTerm ty c k) = constantTerm ty (c * 2) k" for ty c k
    by (simp add: times_scalar_Operator_def constantTerm_def)
  have sz: "size_Expression (times_scalar_Expression 2 exampleExpression)
              = size_Expression exampleExpression"
    using times_scalar_Expression_spec [of 2 exampleExpression] by blast
  have cats:
    "temporalOperators (times_scalar_Expression 2 exampleExpression)
       = map (times_scalar_Operator 2) (temporalOperators exampleExpression) \<and>
     implicitOperators (times_scalar_Expression 2 exampleExpression)
       = map (times_scalar_Operator 2) (implicitOperators exampleExpression) \<and>
     explicitOperators (times_scalar_Expression 2 exampleExpression)
       = map (times_scalar_Operator 2) (explicitOperators exampleExpression)"
    using wf times_scalar_Expression_spec [of 2 exampleExpression] by blast
  have fields:
    "temporalOperators exampleExpression = [constantTerm Temporal 1 1]"
    "implicitOperators exampleExpression = []"
    "explicitOperators exampleExpression = [constantTerm Explicit 1 3, constantTerm Explicit 2 5]"
    by (simp_all add: exampleExpression_def)
  show ?thesis
    using wf sz cats by (simp add: fields scale size_Expression_def)
qed

section \<open>Subtraction\<close>

text \<open>
  C2: for all expressions \<open>e\<close>, \<open>e2\<close> and terms \<open>t1\<close>, \<open>t2\<close>, the differences \<open>e - e2\<close>, \<open>e - t2\<close> and
  \<open>t1 - t2\<close> are the sums \<open>e + (-1 * e2)\<close>, \<open>e + (-1 * t2)\<close> and \<open>t1 + (-1 * t2)\<close>, so evaluating
  the explicit terms of either on a new accumulator of zeros gives the same accumulator and
  the same calls.
\<close>

theorem minus_is_plus_negated:
  "minus_Expression_Expression e e2
     = plus_Expression_Expression e (times_scalar_Expression (- 1) e2) \<and>
   minus_Expression_Operator e t2
     = plus_Expression_Operator e (times_scalar_Operator (- 1) t2) \<and>
   minus_Operator_Operator t1 t2
     = plus_Operator_Operator t1 (times_scalar_Operator (- 1) t2) \<and>
   explicitOperation_nCells (minus_Expression_Expression e e2) nCells calls
     = explicitOperation_nCells
         (plus_Expression_Expression e (times_scalar_Expression (- 1) e2)) nCells calls \<and>
   explicitOperation_nCells (minus_Expression_Operator e t2) nCells calls
     = explicitOperation_nCells
         (plus_Expression_Operator e (times_scalar_Operator (- 1) t2)) nCells calls \<and>
   explicitOperation_nCells (minus_Operator_Operator t1 t2) nCells calls
     = explicitOperation_nCells
         (plus_Operator_Operator t1 (times_scalar_Operator (- 1) t2)) nCells calls"
proof -
  have ee: "minus_Expression_Expression e e2
              = plus_Expression_Expression e (times_scalar_Expression (- 1) e2)"
    by (simp add: minus_Expression_Expression_def plus_Expression_Expression_def)
  have eo: "minus_Expression_Operator e t2
              = plus_Expression_Operator e (times_scalar_Operator (- 1) t2)"
    by (simp add: minus_Expression_Operator_def plus_Expression_Operator_def)
  have oo: "minus_Operator_Operator t1 t2
              = plus_Operator_Operator t1 (times_scalar_Operator (- 1) t2)"
    by (simp add: minus_Operator_Operator_def plus_Operator_Operator_def
        times_scalar_Operator_def)
  show ?thesis
    by (simp add: ee eo oo)
qed

theorem minus_is_plus_negated_witness:
  "explicitOperation_nCells
     (minus_Operator_Operator (constantTerm Explicit 1 3) (constantTerm Explicit 2 5)) 2 []
   = (\<lparr>fieldExec = SerialExecutor, fieldData = [- 7, - 7]\<rparr>,
      [constantTerm Explicit 1 3, constantTerm Explicit (- 2) 5])"
proof -
  have scale: "times_scalar_Operator (- 1) (constantTerm Explicit 2 5) = constantTerm Explicit (- 2) 5"
    by (simp add: times_scalar_Operator_def constantTerm_def)
  have "explicitOperation_nCells
          (plus_Operator_Operator (constantTerm Explicit 1 3) (constantTerm Explicit (- 2) 5)) 2 []
        = (\<lparr>fieldExec = SerialExecutor, fieldData = [- 7, - 7]\<rparr>,
           [constantTerm Explicit 1 3, constantTerm Explicit (- 2) 5])"
    by (simp add: explicitOperation_nCells_def explicitOperation_def plus_Operator_Operator_def
        addOperator_def Expression_ctor_def Field_ctor_def Operator_explicitOperation_def
        constantTerm_def eval_nat_numeral)
  then show ?thesis
    using minus_is_plus_negated
      [where ?t1.0 = "constantTerm Explicit 1 3" and ?t2.0 = "constantTerm Explicit 2 5"
         and nCells = 2 and calls = "[]"]
    by (simp add: scale)
qed

section \<open>Looking a class up by name\<close>

text \<open>
  C7 (amended): for every registry, name and arguments, \<open>create(name, args...)\<close> returns
  exactly the handle that the creation function registered under \<open>name\<close> returns for the
  arguments, null if that handle is null; when \<open>name\<close> is not registered, and also when the
  registered creation function throws \<^verbatim>\<open>std::out_of_range\<close>, the process is terminated with a
  message made of the requested name and the number of registered classes, and nothing is
  returned; any other exception of the creation function leaves \<open>create\<close>. A name that
  \<open>registerClass\<close> has just accepted is registered with the function handed in.
\<close>

theorem create_spec:
  "(\<forall>regCreate handle.
      map_of classMap name = Some regCreate \<and> regCreate args = Inr handle \<longrightarrow>
      create classMap name args = Returned handle) \<and>
   (\<forall>regCreate.
      map_of classMap name = Some regCreate \<and> regCreate args = Inl std_out_of_range \<longrightarrow>
      create classMap name args
        = Terminated ('' Could not find constructor for '' @ name
                       @ ''valid constructors are: '' @ to_string (length classMap))) \<and>
   (\<forall>regCreate.
      map_of classMap name = Some regCreate \<and> regCreate args = Inl other_exception \<longrightarrow>
      create classMap name args = Propagated other_exception) \<and>
   (map_of classMap name = None \<longrightarrow>
      create classMap name args
        = Terminated ('' Could not find constructor for '' @ name
                       @ ''valid constructors are: '' @ to_string (length classMap))) \<and>
   (\<forall>classMap'. registerClass classMap name createFunc = Inr (True, classMap') \<longrightarrow>
      map_of classMap' name = Some createFunc \<and> length classMap' = length classMap + 1)"
proof -
  have reg: "map_of classMap' name = Some createFunc \<and> length classMap' = length classMap + 1"
    if "registerClass classMap name createFunc = Inr (True, classMap')" for classMap'
    using that by (auto simp: registerClass_def map_add_Some_iff split: option.splits)
  have found: "create classMap name args = Returned handle"
    if "map_of classMap name = Some regCreate" "regCreate args = Inr handle" for regCreate handle
    using that by (simp add: create_def)
  have caught: "create classMap name args
        = Terminated ('' Could not find constructor for '' @ name
                       @ ''valid constructors are: '' @ to_string (length classMap))"
    if "map_of classMap name = Some regCreate" "regCreate args = Inl std_out_of_range"
    for regCreate
    using that by (simp add: create_def out_of_range_handler_def NF_ERROR_EXIT_def)
  have passed: "create classMap name args = Propagated other_exception"
    if "map_of classMap name = Some regCreate" "regCreate args = Inl other_exception"
    for regCreate
    using that by (simp add: create_def)
  have unknown: "create classMap name args
        = Terminated ('' Could not find constructor for '' @ name
                       @ ''valid constructors are: '' @ to_string (length classMap))"
    if "map_of classMap name = None"
    using that by (simp add: create_def out_of_range_handler_def NF_ERROR_EXIT_def)
  show ?thesis
    using reg found caught passed unknown by blast
qed

theorem create_spec_witness:
  "registerClass [] Calculated_name (Calculated_create :: (unit \<times> unit \<times> nat, unit Calculated) CreateFunction)
     = Inr (True, [(Calculated_name, Calculated_create)]) \<and>
   create exampleClassMap Calculated_name ((), (), 3) = Returned (Some (Calculated () 3)) \<and>
   create exampleClassMap ''empty'' ((), (), 3) = Returned None \<and>
   create exampleClassMap ''lookup'' ((), (), 3)
     = Terminated '' Could not find constructor for lookupvalid constructors are: 4'' \<and>
   create exampleClassMap ''broken'' ((), (), 3) = Propagated other_exception \<and>
   create exampleClassMap ''fixedValue'' ((), (), 3)
     = Terminated '' Could not find constructor for fixedValuevalid constructors are: 4''"
proof -
  have look:
    "map_of exampleClassMap Calculated_name = Some Calculated_create"
    "map_of exampleClassMap ''empty'' = Some null_create"
    "map_of exampleClassMap ''lookup'' = Some throwing_create"
    "map_of exampleClassMap ''broken'' = Some failing_create"
    "map_of exampleClassMap ''fixedValue'' = None"
    by (simp_all add: exampleClassMap_def Calculated_name_def)
  have len: "to_string (length exampleClassMap) = ''4''"
    by (simp add: exampleClassMap_def to_string.simps digit_def)
  have calls:
    "Calculated_create ((), (), 3 :: nat) = Inr (Some (Calculated () 3))"
    "null_create ((), (), 3 :: nat) = (Inr None :: cxx_exception + unit Calculated option)"
    "throwing_create ((), (), 3 :: nat) = (Inl std_out_of_range :: cxx_exception + unit Calculated option)"
    "failing_create ((), (), 3 :: nat) = (Inl other_exception :: cxx_exception + unit Calculated option)"
    by (simp_all add: Calculated_create_def null_create_def throwing_create_def failing_create_def)
  have reg: "registerClass [] Calculated_name (Calculated_create :: (unit \<times> unit \<times> nat, unit Calculated) CreateFunction)
               = Inr (True, [(Calculated_name, Calculated_create)])"
    by (simp add: registerClass_def)
  show ?thesis
    using reg look calls len
      create_spec [of exampleClassMap Calculated_name "((), (), 3)"]
      create_spec [of exampleClassMap "''empty''" "((), (), 3)"]
      create_spec [of exampleClassMap "''lookup''" "((), (), 3)"]
      create_spec [of exampleClassMap "''broken''" "((), (), 3)"]
      create_spec [of exampleClassMap "''fixedValue''" "((), (), 3)"]
    by simp
qed

text \<open>
  C7 in its original wording promises a non-null handle for every registered name. The
  result of a registered creation function is handed through unchanged, so a function that
  returns the null pointer gives a null handle for a registered name; and a registered
  function that throws \<^verbatim>\<open>std::out_of_range\<close> ends in the handler for unknown names.
\<close>

theorem create_null_counterexample:
  "map_of [(Calculated_name, null_create :: (unit, unit) CreateFunction)] Calculated_name
     = Some null_create \<and>
   create [(Calculated_name, null_create :: (unit, unit) CreateFunction)] Calculated_name ()
     = Returned None \<and>
   map_of [(Calculated_name, throwing_create :: (unit, unit) CreateFunction)] Calculated_name
     = Some throwing_create \<and>
   create [(Calculated_name, throwing_create :: (unit, unit) CreateFunction)] Calculated_name ()
     = Terminated '' Could not find constructor for calculatedvalid constructors are: 1''"
  by (simp add: create_def out_of_range_handler_def NF_ERROR_EXIT_def null_create_def
      throwing_create_def Calculated_name_def to_string.simps digit_def)

end
